theory Spec2Isabelle
  imports
    Main
    "HOL-Library.Sublist"
    "HOL-Library.Char_ord"
    "HOL-Library.List_Lexorder"
begin

section \<open>Python string operations used by download.py\<close>

text \<open>
  Python strings are modelled as \<open>string\<close>. The tests of the source translate to the
  list predicates of the library: \<open>name.startswith(p)\<close> is \<open>prefix p name\<close>,
  \<open>name.endswith(s)\<close> is \<open>suffix s name\<close>, and \<open>t in name\<close> is \<open>sublist t name\<close>
  (a contiguous occurrence). An f-string is a concatenation with \<open>@\<close>.
\<close>

text \<open>
  \<open>str.lower()\<close> on ASCII text: the 26 capital letters are mapped to their small
  counterparts, every other character is kept. (The strings that reach it are the OS
  name, the machine name and the diagnostic output of \<open>ldd\<close>.)
\<close>

definition lower_char :: "char \<Rightarrow> char" where
  "lower_char c =
     (case map_of (zip ''ABCDEFGHIJKLMNOPQRSTUVWXYZ'' ''abcdefghijklmnopqrstuvwxyz'') c of
        Some d \<Rightarrow> d
      | None \<Rightarrow> c)"

definition lower :: "string \<Rightarrow> string" where
  "lower s = map lower_char s"

text \<open>\<open>s.lstrip(chars)\<close>: drops every leading character that occurs in \<open>chars\<close>.\<close>

definition lstrip :: "string \<Rightarrow> string \<Rightarrow> string" where
  "lstrip chars s = dropWhile (\<lambda>c. c \<in> set chars) s"

text \<open>
  \<open>s.replace(old, new)\<close>: the occurrences of \<open>old\<close> are found from the left, without
  overlap, and each is replaced by \<open>new\<close>. For the empty \<open>old\<close> Python puts \<open>new\<close>
  before every character and at the end.
\<close>

fun replace_nonempty :: "string \<Rightarrow> string \<Rightarrow> string \<Rightarrow> string" where
  "replace_nonempty old new [] = []"
| "replace_nonempty old new (c # cs) =
     (if old \<noteq> [] \<and> prefix old (c # cs)
      then new @ replace_nonempty old new (drop (length old) (c # cs))
      else c # replace_nonempty old new cs)"

definition str_replace :: "string \<Rightarrow> string \<Rightarrow> string \<Rightarrow> string" where
  "str_replace old new s =
     (if old = [] then new @ concat (map (\<lambda>c. c # new) s)
      else replace_nonempty old new s)"

text \<open>
  \<open>s.split(sep)\<close> for a one-character separator: every occurrence splits, so adjacent
  separators give empty tokens and the result is never the empty list.
\<close>

fun split_on :: "char \<Rightarrow> string \<Rightarrow> string list" where
  "split_on sep [] = [[]]"
| "split_on sep (c # cs) =
     (if c = sep then [] # split_on sep cs
      else (case split_on sep cs of
              [] \<Rightarrow> [[c]]
            | p # ps \<Rightarrow> (c # p) # ps))"

text \<open>\<open>sep.join(parts)\<close>.\<close>

fun join :: "string \<Rightarrow> string list \<Rightarrow> string" where
  "join sep [] = []"
| "join sep [p] = p"
| "join sep (p # q # ps) = p @ sep @ join sep (q # ps)"

text \<open>\<open>d.get(k, default)\<close> on a dictionary given as an association list.\<close>

definition dict_get :: "('k \<times> 'v) list \<Rightarrow> 'k \<Rightarrow> 'v \<Rightarrow> 'v" where
  "dict_get d k dflt = (case map_of d k of Some v \<Rightarrow> v | None \<Rightarrow> dflt)"


section \<open>Errors\<close>

text \<open>
  What \<open>subprocess.run\<close> can raise, as far as the handler of the source distinguishes
  it: the two classes it names, and any other exception (for instance a
  \<open>PermissionError\<close>), which the handler lets through. \<open>Uncaught\<close> is an exception
  outside class \<open>Exception\<close> (\<open>KeyboardInterrupt\<close>, \<open>SystemExit\<close>), given by its name,
  which a handler \<open>except Exception\<close> lets through.
\<close>

datatype run_exception = FileNotFoundError | SubprocessError | OtherException

datatype error =
    ValueError string
  | RuntimeError string
  | Propagated run_exception
  | Uncaught string


section \<open>Platform resolver: \<open>get_platform_tag\<close>\<close>

definition arch_map :: "(string \<times> string) list" where
  "arch_map =
     [(''x86_64'', ''x86_64''),
      (''amd64'', ''x86_64''),
      (''aarch64'', ''aarch64''),
      (''arm64'', ''arm64''),
      (''armv7l'', ''armv7l''),
      (''i386'', ''i686''),
      (''i686'', ''i686''),
      (''ppc64le'', ''ppc64le''),
      (''s390x'', ''s390x'')]"

text \<open>Line 36 of the source: \<open>arch = arch_map.get(machine, machine)\<close>.\<close>

definition normalize_arch :: "string \<Rightarrow> string" where
  "normalize_arch machine = dict_get arch_map machine machine"

text \<open>
  The result of \<open>subprocess.run(["ldd", "--version"], capture_output=True, text=True,
  check=False)\<close>: a completed process, whatever its return code (\<open>check=False\<close>), or an
  exception.
\<close>

record completed_process =
  returncode :: int
  stdout :: string
  stderr :: string

datatype run_outcome = Returns completed_process | Raises run_exception

text \<open>
  Lines 46 to 57: the \<open>try\<close> block that sets \<open>libc\<close>. An exception of another class than
  the two of the \<open>except\<close> clause leaves the function.
\<close>

fun detect_libc :: "run_outcome \<Rightarrow> run_exception + string" where
  "detect_libc (Returns result) =
     (if sublist ''musl'' (lower (stderr result)) then Inr ''musllinux''
      else Inr ''manylinux'')"
| "detect_libc (Raises FileNotFoundError) = Inr ''manylinux''"
| "detect_libc (Raises SubprocessError) = Inr ''manylinux''"
| "detect_libc (Raises OtherException) = Inl OtherException"

definition unsupported_platform :: "string \<Rightarrow> string \<Rightarrow> error" where
  "unsupported_platform system machine =
     ValueError (''Unsupported platform: '' @ system @ '' '' @ machine)"

text \<open>
  The arguments are what \<open>platform.system()\<close> and \<open>platform.machine()\<close> return and
  what running \<open>ldd\<close> would give. A manylinux architecture without an entry falls out
  of the \<open>if\<close> chain and reaches the \<open>raise\<close> of the last line, like an unknown OS.
\<close>

definition get_platform_tag :: "string \<Rightarrow> string \<Rightarrow> run_outcome \<Rightarrow> error + string list" where
  "get_platform_tag platform_system platform_machine ldd =
     (let system = lower platform_system;
          machine = lower platform_machine;
          arch = normalize_arch machine
      in
        if system = ''darwin'' then
          (if arch \<in> set [''arm64'', ''aarch64''] then Inr [''macosx_11_0_arm64'']
           else Inr [''macosx_10_9_x86_64''])
        else if system = ''linux'' then
          (case detect_libc ldd of
             Inl e \<Rightarrow> Inl (Propagated e)
           | Inr libc \<Rightarrow>
               if libc = ''manylinux'' then
                 (if arch = ''x86_64'' then
                    Inr [''manylinux_2_27_x86_64.manylinux_2_28_x86_64'',
                         ''manylinux_2_17_x86_64.manylinux2014_x86_64'']
                  else if arch = ''aarch64'' then
                    Inr [''manylinux_2_26_aarch64.manylinux_2_28_aarch64'',
                         ''manylinux_2_17_aarch64.manylinux2014_aarch64'']
                  else if arch = ''i686'' then
                    Inr [''manylinux_2_26_i686.manylinux_2_28_i686'',
                         ''manylinux_2_17_i686.manylinux2014_i686'']
                  else if arch = ''ppc64le'' then
                    Inr [''manylinux_2_26_ppc64le.manylinux_2_28_ppc64le'']
                  else if arch = ''s390x'' then
                    Inr [''manylinux_2_26_s390x.manylinux_2_28_s390x'']
                  else if arch = ''armv7l'' then
                    Inr [''manylinux_2_31_armv7l'']
                  else Inl (unsupported_platform system machine))
               else Inr [''musllinux_1_2_'' @ arch])
        else if system = ''windows'' then
          (if arch = ''amd64'' \<or> arch = ''x86_64'' then Inr [''win_amd64'']
           else if arch = ''arm64'' then Inr [''win_arm64'']
           else Inr [''win32''])
        else Inl (unsupported_platform system machine))"


section \<open>Release fetcher: \<open>get_release_info\<close>\<close>

definition default_repo :: string where
  "default_repo = ''cpp-linter/clang-tools-wheel''"

text \<open>Lines 98 to 103: the URL that is queried.\<close>

definition release_url :: "string \<Rightarrow> string option \<Rightarrow> string" where
  "release_url repo version =
     (case version of
        None \<Rightarrow> ''https://api.github.com/repos/'' @ repo @ ''/releases/latest''
      | Some v \<Rightarrow>
          if v \<noteq> [] then
            (let clean_version = lstrip ''v'' v
             in ''https://api.github.com/repos/'' @ repo @ ''/releases/tags/v'' @ clean_version)
          else ''https://api.github.com/repos/'' @ repo @ ''/releases/latest'')"

text \<open>
  The network is a parameter: \<open>fetch url\<close> is what opening the URL, reading, decoding
  and parsing the body gives, either the parsed release (\<open>Inr\<close>) or the text \<open>str(e)\<close> of
  the exception \<open>e\<close> that one of these steps raised (\<open>Inl\<close>). The handler of lines 108 to
  114 turns every such exception into a \<open>RuntimeError\<close>.
\<close>

definition get_release_info ::
    "string \<Rightarrow> string option \<Rightarrow> (string \<Rightarrow> string + 'r) \<Rightarrow> error + 'r" where
  "get_release_info repo version fetch =
     (case fetch (release_url repo version) of
        Inr info \<Rightarrow> Inr info
      | Inl e \<Rightarrow>
          (case version of
             None \<Rightarrow> Inl (RuntimeError (''Failed to fetch latest release info: '' @ e))
           | Some v \<Rightarrow>
               if v \<noteq> [] then
                 Inl (RuntimeError (''Failed to fetch release info for version '' @ v @ '': '' @ e))
               else Inl (RuntimeError (''Failed to fetch latest release info: '' @ e))))"


section \<open>Asset matcher: \<open>find_wheel_asset\<close>\<close>

text \<open>
  An asset of a release, with the three keys the program reads. The key \<open>size\<close> of the
  source is the field \<open>size_bytes\<close> here.
\<close>

record asset =
  name :: string
  browser_download_url :: string
  size_bytes :: nat

record release_info =
  tag_name :: string
  assets :: "asset list"

text \<open>Lines 125 to 135: the two prefixes, built up by appending.\<close>

definition wheel_patterns :: "string \<Rightarrow> string option \<Rightarrow> string \<times> string" where
  "wheel_patterns tool version =
     (let tool_underscore = str_replace ''-'' ''_'' tool;
          wheel_pattern_hyphen = tool @ ''-'';
          wheel_pattern_underscore = tool_underscore @ ''-'';
          wheel_pattern_hyphen =
            (case version of
               None \<Rightarrow> wheel_pattern_hyphen
             | Some v \<Rightarrow> if v \<noteq> [] then wheel_pattern_hyphen @ v @ ''-''
                         else wheel_pattern_hyphen);
          wheel_pattern_underscore =
            (case version of
               None \<Rightarrow> wheel_pattern_underscore
             | Some v \<Rightarrow> if v \<noteq> [] then wheel_pattern_underscore @ v @ ''-''
                         else wheel_pattern_underscore)
      in (wheel_pattern_hyphen @ ''py2.py3-none-'', wheel_pattern_underscore @ ''py2.py3-none-''))"

text \<open>Lines 141 to 148: the test applied to one asset for one platform tag.\<close>

definition asset_matches :: "string \<Rightarrow> string \<Rightarrow> string \<Rightarrow> asset \<Rightarrow> bool" where
  "asset_matches wheel_pattern_hyphen wheel_pattern_underscore platform_tag a =
     ((prefix wheel_pattern_hyphen (name a) \<or> prefix wheel_pattern_underscore (name a))
      \<and> suffix ''.whl'' (name a)
      \<and> sublist platform_tag (name a))"

text \<open>The inner loop, over the assets in list order, for one platform tag.\<close>

fun scan_assets :: "string \<Rightarrow> string \<Rightarrow> string \<Rightarrow> asset list \<Rightarrow> asset option" where
  "scan_assets ph pu platform_tag [] = None"
| "scan_assets ph pu platform_tag (a # rest) =
     (if asset_matches ph pu platform_tag a then Some a
      else scan_assets ph pu platform_tag rest)"

text \<open>The outer loop, over the platform tags in preference order.\<close>

fun scan_tags :: "string \<Rightarrow> string \<Rightarrow> asset list \<Rightarrow> string list \<Rightarrow> asset option" where
  "scan_tags ph pu as [] = None"
| "scan_tags ph pu as (platform_tag # tags) =
     (case scan_assets ph pu platform_tag as of
        Some a \<Rightarrow> Some a
      | None \<Rightarrow> scan_tags ph pu as tags)"

definition find_wheel_asset ::
    "asset list \<Rightarrow> string \<Rightarrow> string list \<Rightarrow> string option \<Rightarrow> asset option" where
  "find_wheel_asset as tool platform_tags version =
     (case wheel_patterns tool version of
        (wheel_pattern_hyphen, wheel_pattern_underscore) \<Rightarrow>
          scan_tags wheel_pattern_hyphen wheel_pattern_underscore as platform_tags)"

text \<open>
  The matching rule in the words of the specification, to compare the code with: a
  prefix (the tool name, hyphenated or underscored, a hyphen, the version and a hyphen
  when a version is given, the middle segment), the wheel suffix, and the tag somewhere
  in the name; the same three tests for either prefix.
\<close>

definition version_segment :: "string option \<Rightarrow> string" where
  "version_segment version =
     (case version of None \<Rightarrow> [] | Some v \<Rightarrow> if v = [] then [] else v @ ''-'')"

definition hyphenated_prefix :: "string \<Rightarrow> string option \<Rightarrow> string" where
  "hyphenated_prefix tool version = tool @ ''-'' @ version_segment version @ ''py2.py3-none-''"

definition underscored_prefix :: "string \<Rightarrow> string option \<Rightarrow> string" where
  "underscored_prefix tool version =
     map (\<lambda>c. if c = CHR ''-'' then CHR ''_'' else c) tool
       @ ''-'' @ version_segment version @ ''py2.py3-none-''"

definition form_accepts :: "string \<Rightarrow> string \<Rightarrow> string \<Rightarrow> bool" where
  "form_accepts pfx platform_tag n =
     (prefix pfx n \<and> suffix ''.whl'' n \<and> sublist platform_tag n)"

definition spec_accepts :: "string \<Rightarrow> string option \<Rightarrow> string \<Rightarrow> string \<Rightarrow> bool" where
  "spec_accepts tool version platform_tag n =
     (form_accepts (hyphenated_prefix tool version) platform_tag n
      \<or> form_accepts (underscored_prefix tool version) platform_tag n)"


section \<open>Downloader: \<open>download_file\<close>\<close>

text \<open>
  The transfer is a parameter: \<open>urlretrieve url filename\<close> completes, or raises an
  exception \<open>e\<close> of class \<open>Exception\<close>, given by its text \<open>str(e)\<close>, or raises an
  exception outside that class (\<open>KeyboardInterrupt\<close>, \<open>SystemExit\<close>), given by its name.
\<close>

datatype transfer = Completes | RaisesException string | RaisesBaseException string

text \<open>
  The result is what the call gives, the returned boolean (\<open>Inr\<close>) or the exception that
  leaves the function (\<open>Inl\<close>), with the lines printed until then, in order. The handler
  of line 161 is \<open>except Exception\<close>: it does not catch an exception outside that class.
\<close>

definition download_file ::
    "string \<Rightarrow> string \<Rightarrow> (string \<Rightarrow> string \<Rightarrow> transfer) \<Rightarrow> (error + bool) \<times> string list" where
  "download_file url filename urlretrieve =
     (let printed = [''Downloading '' @ filename @ ''...'']
      in case urlretrieve url filename of
           Completes \<Rightarrow> (Inr True, printed @ [''Successfully downloaded '' @ filename])
         | RaisesException e \<Rightarrow>
             (Inr False, printed @ [''Failed to download '' @ filename @ '': '' @ e])
         | RaisesBaseException e \<Rightarrow> (Inl (Uncaught e), printed))"


section \<open>Platform listing mode of \<open>main\<close>\<close>

text \<open>Lines 219 to 229: the wheels of the tool, under either spelling of its name.\<close>

definition tool_assets :: "string \<Rightarrow> asset list \<Rightarrow> asset list" where
  "tool_assets tool as =
     (let tool_underscore = str_replace ''-'' ''_'' tool
      in filter (\<lambda>a. (prefix (tool @ ''-'') (name a) \<or> prefix (tool_underscore @ ''-'') (name a))
                      \<and> suffix ''.whl'' (name a)) as)"

text \<open>
  Lines 231 to 240: the loop that fills the set \<open>platforms\<close>. The platform part is
  \<open>"-".join(parts[4:])\<close>, taken only from a name of at least five tokens.
\<close>

fun collect_platforms :: "asset list \<Rightarrow> string set \<Rightarrow> string set" where
  "collect_platforms [] platforms = platforms"
| "collect_platforms (a # rest) platforms =
     (let name_without_ext = str_replace ''.whl'' [] (name a);
          parts = split_on CHR ''-'' name_without_ext
      in if length parts \<ge> 5
         then collect_platforms rest (insert (join ''-'' (drop 4 parts)) platforms)
         else collect_platforms rest platforms)"

text \<open>
  Lines 213 to 244: the lines printed in listing mode, the heading first, then the
  platforms in sorted order, each after two spaces.
\<close>

definition list_platforms :: "string \<Rightarrow> release_info \<Rightarrow> string list" where
  "list_platforms tool info =
     (''Available platforms for '' @ tool @ '' in release '' @ tag_name info @ '':'')
       # map (\<lambda>platform_tag. ''  '' @ platform_tag)
           (sorted_list_of_set (collect_platforms (tool_assets tool (assets info)) {}))"


section \<open>Example inputs\<close>

text \<open>A completed run of \<open>ldd --version\<close> as musl gives it: return code 1, the text on stderr.\<close>

definition musl_ldd :: run_outcome where
  "musl_ldd = Returns \<lparr>returncode = 1, stdout = [], stderr = ''musl libc (x86_64)''\<rparr>"

text \<open>A completed run of \<open>ldd --version\<close> as glibc gives it: the text on stdout.\<close>

definition glibc_ldd :: run_outcome where
  "glibc_ldd = Returns \<lparr>returncode = 0, stdout = ''ldd (GNU libc) 2.35'', stderr = []\<rparr>"

definition wheel :: "string \<Rightarrow> asset" where
  "wheel n = \<lparr>name = n, browser_download_url = ''https://example.org/'' @ n, size_bytes = 1\<rparr>"

text \<open>The release of two hyphenated \<open>clang-tidy\<close> wheels that the specification lists.\<close>

definition tidy_release :: release_info where
  "tidy_release =
     \<lparr>tag_name = ''v1.0'',
      assets =
        [wheel ''clang-tidy-1.0-py2.py3-none-manylinux_2_17_x86_64.manylinux2014_x86_64.whl'',
         wheel ''clang-tidy-1.0-py2.py3-none-win_amd64.whl'']\<rparr>"

text \<open>The same release with the underscored spelling of the tool name.\<close>

definition tidy_release_underscored :: release_info where
  "tidy_release_underscored =
     \<lparr>tag_name = ''v1.0'',
      assets =
        [wheel ''clang_tidy-1.0-py2.py3-none-manylinux_2_17_x86_64.manylinux2014_x86_64.whl'',
         wheel ''clang_tidy-1.0-py2.py3-none-win_amd64.whl'']\<rparr>"

text \<open>Two \<open>clang-format\<close> wheels, the newer manylinux variant listed first.\<close>

definition format_assets :: "asset list" where
  "format_assets =
     [wheel ''clang-format-20.1.8-py2.py3-none-manylinux_2_27_x86_64.manylinux_2_28_x86_64.whl'',
      wheel ''clang-format-20.1.8-py2.py3-none-manylinux_2_17_x86_64.manylinux2014_x86_64.whl'']"



text \<open>A fetch that fails, as for a release tag that does not exist.\<close>

definition not_found :: "string \<Rightarrow> string + release_info" where
  "not_found url = Inl ''HTTP Error 404: Not Found''"


section \<open>Properties of the platform resolver\<close>

lemma lower_simps:
  "lower ''Linux'' = ''linux''"
  "lower ''FreeBSD'' = ''freebsd''"
  "lower ''arm64'' = ''arm64''"
  "lower ''aarch64'' = ''aarch64''"
  "lower ''riscv64'' = ''riscv64''"
  "lower ''amd64'' = ''amd64''"
  by (simp_all add: lower_def lower_char_def)

lemma normalize_arch_simps:
  "normalize_arch ''arm64'' = ''arm64''"
  "normalize_arch ''aarch64'' = ''aarch64''"
  "normalize_arch ''riscv64'' = ''riscv64''"
  "normalize_arch ''amd64'' = ''x86_64''"
  by (simp_all add: normalize_arch_def dict_get_def arch_map_def)

text \<open>
  C7: normalising an architecture name twice gives the same name as normalising it
  once; every value of the alias table is a key that maps to itself, and a name that is
  not a key is returned as it is.
\<close>

theorem normalize_arch_idempotent:
  "normalize_arch (normalize_arch machine) = normalize_arch machine"
  by (simp add: normalize_arch_def dict_get_def arch_map_def)

lemma unsupported_message_contains:
  "sublist system (''Unsupported platform: '' @ system @ '' '' @ machine)"
  "sublist machine (''Unsupported platform: '' @ system @ '' '' @ machine)"
proof -
  show "sublist system (''Unsupported platform: '' @ system @ '' '' @ machine)"
    by (rule sublist_appendI)
  have "sublist machine ((''Unsupported platform: '' @ system @ '' '') @ machine)"
    by (rule sublist_append_leftI)
  then show "sublist machine (''Unsupported platform: '' @ system @ '' '' @ machine)"
    by simp
qed

text \<open>
  C3: when the OS name (lower-cased, as the code compares it) is none of \<open>darwin\<close>,
  \<open>linux\<close>, \<open>windows\<close>, and when it is \<open>linux\<close>, the libc flavour is \<open>manylinux\<close> and the
  normalised architecture has no entry in the manylinux table, the resolver raises the
  \<open>ValueError\<close> of its last line. The message is \<open>Unsupported platform:\<close> followed by
  the OS name and the machine name, the latter before alias normalisation, so it
  contains both. Both names appear as the code holds them, in lower case.
\<close>

theorem unsupported_platform_error:
  assumes "lower sys \<notin> {''darwin'', ''linux'', ''windows''} \<or>
           (lower sys = ''linux'' \<and> detect_libc ldd = Inr ''manylinux'' \<and>
            normalize_arch (lower mach) \<notin>
              {''x86_64'', ''aarch64'', ''i686'', ''ppc64le'', ''s390x'', ''armv7l''})"
  shows "get_platform_tag sys mach ldd =
           Inl (ValueError (''Unsupported platform: '' @ lower sys @ '' '' @ lower mach)) \<and>
         sublist (lower sys) (''Unsupported platform: '' @ lower sys @ '' '' @ lower mach) \<and>
         sublist (lower mach) (''Unsupported platform: '' @ lower sys @ '' '' @ lower mach)"
proof -
  have "get_platform_tag sys mach ldd =
           Inl (ValueError (''Unsupported platform: '' @ lower sys @ '' '' @ lower mach))"
    using assms
    by (auto simp add: get_platform_tag_def unsupported_platform_def Let_def)
  then show ?thesis
    by (simp only: unsupported_message_contains simp_thms)
qed

text \<open>
  The theorem at an OS that is not supported (FreeBSD on amd64; \<open>ldd\<close> is not run there),
  and at Linux on riscv64 without \<open>ldd\<close>.
\<close>

theorem unsupported_platform_error_witness:
  "get_platform_tag ''FreeBSD'' ''amd64'' (Raises OtherException) =
     Inl (ValueError ''Unsupported platform: freebsd amd64'') \<and>
   sublist ''freebsd'' ''Unsupported platform: freebsd amd64'' \<and>
   sublist ''amd64'' ''Unsupported platform: freebsd amd64'' \<and>
   get_platform_tag ''Linux'' ''riscv64'' (Raises FileNotFoundError) =
     Inl (ValueError ''Unsupported platform: linux riscv64'') \<and>
   sublist ''linux'' ''Unsupported platform: linux riscv64'' \<and>
   sublist ''riscv64'' ''Unsupported platform: linux riscv64''"
  using unsupported_platform_error
          [where sys = "''FreeBSD''" and mach = "''amd64''" and ldd = "Raises OtherException"]
        unsupported_platform_error
          [where sys = "''Linux''" and mach = "''riscv64''" and ldd = "Raises FileNotFoundError"]
  by (simp add: lower_simps normalize_arch_simps)

lemma detect_libc_musl_iff:
  "(detect_libc ldd = Inr ''musllinux'') =
     (\<exists>result. ldd = Returns result \<and> sublist ''musl'' (lower (stderr result)))"
proof (cases ldd)
  case (Returns result)
  then show ?thesis by simp
next
  case (Raises e)
  then show ?thesis by (cases e) simp_all
qed

lemma musl_tag:
  assumes "lower sys = ''linux''" and "detect_libc ldd = Inr ''musllinux''"
  shows "get_platform_tag sys mach ldd = Inr [''musllinux_1_2_'' @ normalize_arch (lower mach)]"
  using assms by (simp add: get_platform_tag_def Let_def)

lemma detect_libc_musl_ldd: "detect_libc musl_ldd = Inr ''musllinux''"
  by (simp add: musl_ldd_def lower_def lower_char_def sublist_code)

lemma detect_libc_many_iff:
  "(detect_libc ldd = Inr ''manylinux'') =
     ((\<exists>result. ldd = Returns result \<and> \<not> sublist ''musl'' (lower (stderr result)))
      \<or> ldd = Raises FileNotFoundError \<or> ldd = Raises SubprocessError)"
proof (cases ldd)
  case (Returns result)
  then show ?thesis by simp
next
  case (Raises e)
  then show ?thesis by (cases e) simp_all
qed

lemma other_exception_propagates:
  assumes "lower sys = ''linux''"
  shows "get_platform_tag sys mach (Raises OtherException) = Inl (Propagated OtherException)"
  using assms by (simp add: get_platform_tag_def Let_def)

lemma detect_libc_glibc_ldd: "detect_libc glibc_ldd = Inr ''manylinux''"
  by (simp add: glibc_ldd_def lower_def)

text \<open>
  C4, as it is stated, fails when the invocation of \<open>ldd\<close> fails with an exception that
  is neither \<open>FileNotFoundError\<close> nor \<open>SubprocessError\<close> (a \<open>PermissionError\<close> for an
  \<open>ldd\<close> that may not be executed, say): the \<open>except\<close> clause of line 55 does not catch
  it, no flavour is chosen, and the exception leaves the resolver.
\<close>

theorem libc_detection_counterexample:
  "detect_libc (Raises OtherException) \<noteq> Inr ''manylinux'' \<and>
   get_platform_tag ''Linux'' ''x86_64'' (Raises OtherException) =
     Inl (Propagated OtherException)"
  by (simp add: get_platform_tag_def Let_def lower_simps)

text \<open>
  C4, amended: on Linux the flavour is \<open>musllinux\<close> exactly when the run of
  \<open>ldd --version\<close> returns (with any return code) and its stderr, lower-cased, contains
  \<open>musl\<close>; it is \<open>manylinux\<close> exactly when the run returns without that marker, or
  raises \<open>FileNotFoundError\<close> (no \<open>ldd\<close>) or \<open>SubprocessError\<close>; an exception of
  another class is not caught and leaves the resolver; and with the musl flavour the
  resolver returns the single tag \<open>musllinux_1_2_\<close> followed by the normalised
  architecture, whatever the architecture is.
\<close>

theorem libc_detection:
  "((detect_libc ldd = Inr ''musllinux'') =
      (\<exists>result. ldd = Returns result \<and> sublist ''musl'' (lower (stderr result)))) \<and>
   ((detect_libc ldd = Inr ''manylinux'') =
      ((\<exists>result. ldd = Returns result \<and> \<not> sublist ''musl'' (lower (stderr result)))
       \<or> ldd = Raises FileNotFoundError \<or> ldd = Raises SubprocessError)) \<and>
   (ldd = Raises OtherException \<longrightarrow> detect_libc ldd = Inl OtherException) \<and>
   (lower sys = ''linux'' \<and> ldd = Raises OtherException \<longrightarrow>
      get_platform_tag sys mach ldd = Inl (Propagated OtherException)) \<and>
   (lower sys = ''linux'' \<and> detect_libc ldd = Inr ''musllinux'' \<longrightarrow>
      get_platform_tag sys mach ldd = Inr [''musllinux_1_2_'' @ normalize_arch (lower mach)])"
proof (intro conjI impI)
  show "(detect_libc ldd = Inr ''musllinux'') =
      (\<exists>result. ldd = Returns result \<and> sublist ''musl'' (lower (stderr result)))"
    by (rule detect_libc_musl_iff)
next
  show "(detect_libc ldd = Inr ''manylinux'') =
      ((\<exists>result. ldd = Returns result \<and> \<not> sublist ''musl'' (lower (stderr result)))
       \<or> ldd = Raises FileNotFoundError \<or> ldd = Raises SubprocessError)"
    by (rule detect_libc_many_iff)
next
  assume "ldd = Raises OtherException"
  then show "detect_libc ldd = Inl OtherException" by simp
next
  assume "lower sys = ''linux'' \<and> ldd = Raises OtherException"
  then show "get_platform_tag sys mach ldd = Inl (Propagated OtherException)"
    by (simp add: other_exception_propagates)
next
  assume "lower sys = ''linux'' \<and> detect_libc ldd = Inr ''musllinux''"
  then show "get_platform_tag sys mach ldd = Inr [''musllinux_1_2_'' @ normalize_arch (lower mach)]"
    by (simp add: musl_tag)
qed

text \<open>
  The theorem at the output of musl's \<open>ldd\<close> (which ends with return code 1), at the
  output of glibc's \<open>ldd\<close>, at the three kinds of exception, and at an architecture that
  the alias table does not know.
\<close>

theorem libc_detection_witness:
  "detect_libc musl_ldd = Inr ''musllinux'' \<and>
   detect_libc glibc_ldd = Inr ''manylinux'' \<and>
   detect_libc (Raises FileNotFoundError) = Inr ''manylinux'' \<and>
   detect_libc (Raises SubprocessError) = Inr ''manylinux'' \<and>
   detect_libc (Raises OtherException) = Inl OtherException \<and>
   get_platform_tag ''Linux'' ''riscv64'' (Raises OtherException) =
     Inl (Propagated OtherException) \<and>
   get_platform_tag ''Linux'' ''riscv64'' musl_ldd = Inr [''musllinux_1_2_riscv64'']"
  using libc_detection [where ldd = musl_ldd and sys = "''Linux''" and mach = "''riscv64''"]
        libc_detection [where ldd = "Raises FileNotFoundError"]
        libc_detection [where ldd = "Raises SubprocessError"]
        libc_detection
          [where ldd = "Raises OtherException" and sys = "''Linux''" and mach = "''riscv64''"]
        detect_libc_musl_ldd detect_libc_glibc_ldd
  by (simp add: lower_simps normalize_arch_simps)

text \<open>
  C10: on Linux with the manylinux flavour the machine name \<open>arm64\<close> ends in the
  unsupported-platform error while \<open>aarch64\<close> gets the two manylinux aarch64 tags: the
  alias table maps \<open>arm64\<close> to itself, not to \<open>aarch64\<close>, and the manylinux branch has
  no case for \<open>arm64\<close>.
\<close>

theorem linux_arm64_unsupported:
  "lower sys = ''linux'' \<and> detect_libc ldd = Inr ''manylinux'' \<longrightarrow>
     get_platform_tag sys ''arm64'' ldd = Inl (ValueError ''Unsupported platform: linux arm64'') \<and>
     get_platform_tag sys ''aarch64'' ldd =
       Inr [''manylinux_2_26_aarch64.manylinux_2_28_aarch64'',
            ''manylinux_2_17_aarch64.manylinux2014_aarch64''] \<and>
     normalize_arch ''arm64'' = ''arm64'' \<and>
     normalize_arch ''arm64'' \<noteq> normalize_arch ''aarch64''"
  by (simp add: get_platform_tag_def Let_def lower_simps normalize_arch_simps
        unsupported_platform_def)

theorem linux_arm64_unsupported_witness:
  "get_platform_tag ''Linux'' ''arm64'' (Raises FileNotFoundError) =
     Inl (ValueError ''Unsupported platform: linux arm64'') \<and>
   get_platform_tag ''Linux'' ''aarch64'' (Raises FileNotFoundError) =
       Inr [''manylinux_2_26_aarch64.manylinux_2_28_aarch64'',
            ''manylinux_2_17_aarch64.manylinux2014_aarch64'']"
  using linux_arm64_unsupported [where sys = "''Linux''" and ldd = "Raises FileNotFoundError"]
  by (simp add: lower_simps)


section \<open>Properties of the release fetcher\<close>

lemma sublist_in_message:
  "sublist v (pre @ v @ mid @ e)" "sublist e (pre @ v @ mid @ e)"
proof -
  show "sublist v (pre @ v @ mid @ e)" by (rule sublist_appendI)
  have "sublist e ((pre @ v @ mid) @ e)" by (rule sublist_append_leftI)
  then show "sublist e (pre @ v @ mid @ e)" by simp
qed

text \<open>
  C6: when fetching the release fails with cause \<open>cause\<close>, \<open>get_release_info\<close> raises a
  \<open>RuntimeError\<close> whose message contains the requested version and the cause; for a
  non-empty version the message is \<open>Failed to fetch release info for version\<close>, the
  version, a colon and the cause. Without a version (\<open>None\<close>, or the empty string, which
  \<open>if version:\<close> treats alike) the message is that of the latest release, with the cause
  only.
\<close>

theorem release_fetch_failure:
  "(fetch (release_url repo (Some v)) = Inl cause \<longrightarrow>
      (\<exists>msg. get_release_info repo (Some v) fetch = Inl (RuntimeError msg)
             \<and> sublist v msg \<and> sublist cause msg)) \<and>
   (fetch (release_url repo (Some v)) = Inl cause \<and> v \<noteq> [] \<longrightarrow>
      get_release_info repo (Some v) fetch =
        Inl (RuntimeError (''Failed to fetch release info for version '' @ v @ '': '' @ cause))) \<and>
   (fetch (release_url repo None) = Inl cause \<longrightarrow>
      get_release_info repo None fetch =
        Inl (RuntimeError (''Failed to fetch latest release info: '' @ cause))) \<and>
   (fetch (release_url repo (Some [])) = Inl cause \<longrightarrow>
      get_release_info repo (Some []) fetch =
        Inl (RuntimeError (''Failed to fetch latest release info: '' @ cause)))"
proof (intro conjI impI)
  assume f: "fetch (release_url repo (Some v)) = Inl cause"
  show "\<exists>msg. get_release_info repo (Some v) fetch = Inl (RuntimeError msg)
             \<and> sublist v msg \<and> sublist cause msg"
  proof (cases "v = []")
    case True
    with f have "get_release_info repo (Some v) fetch =
        Inl (RuntimeError (''Failed to fetch latest release info: '' @ cause))"
      by (simp add: get_release_info_def)
    moreover have "sublist cause (''Failed to fetch latest release info: '' @ cause)"
      by (rule sublist_append_leftI)
    moreover have "sublist v (''Failed to fetch latest release info: '' @ cause)"
      unfolding True by (rule sublist_Nil_left)
    ultimately show ?thesis by (intro exI conjI)
  next
    case False
    with f have "get_release_info repo (Some v) fetch =
        Inl (RuntimeError (''Failed to fetch release info for version '' @ v @ '': '' @ cause))"
      by (simp add: get_release_info_def)
    moreover note sublist_in_message
      [where v = v and pre = "''Failed to fetch release info for version ''" and mid = "'': ''"
         and e = cause]
    ultimately show ?thesis by (intro exI conjI)
  qed
next
  assume "fetch (release_url repo (Some v)) = Inl cause \<and> v \<noteq> []"
  then show "get_release_info repo (Some v) fetch =
        Inl (RuntimeError (''Failed to fetch release info for version '' @ v @ '': '' @ cause))"
    by (simp add: get_release_info_def)
next
  assume "fetch (release_url repo None) = Inl cause"
  then show "get_release_info repo None fetch =
        Inl (RuntimeError (''Failed to fetch latest release info: '' @ cause))"
    by (simp add: get_release_info_def)
next
  assume "fetch (release_url repo (Some [])) = Inl cause"
  then show "get_release_info repo (Some []) fetch =
        Inl (RuntimeError (''Failed to fetch latest release info: '' @ cause))"
    by (simp add: get_release_info_def)
qed

text \<open>The theorem at a version that does not exist, and without a version.\<close>

theorem release_fetch_failure_witness:
  "get_release_info default_repo (Some ''99.0.0'') not_found =
     Inl (RuntimeError
       ''Failed to fetch release info for version 99.0.0: HTTP Error 404: Not Found'') \<and>
   get_release_info default_repo None not_found =
     Inl (RuntimeError ''Failed to fetch latest release info: HTTP Error 404: Not Found'') \<and>
   get_release_info default_repo (Some []) not_found =
     Inl (RuntimeError ''Failed to fetch latest release info: HTTP Error 404: Not Found'')"
  using release_fetch_failure
          [where fetch = not_found and repo = default_repo and v = "''99.0.0''"
             and cause = "''HTTP Error 404: Not Found''"]
  by (simp add: not_found_def)

text \<open>
  C9, as it is stated, fails at the empty string: for the version \<open>v\<close> the URL is the one
  of the tag \<open>v\<close>, for the empty version it is the one of the latest release, because
  \<open>if version:\<close> takes the empty string for no version.
\<close>

theorem release_url_v_prefix_counterexample:
  "release_url default_repo (Some (''v'' @ [])) \<noteq> release_url default_repo (Some [])"
  by (simp add: release_url_def default_repo_def lstrip_def)

text \<open>
  C9, amended: for every version string \<open>s\<close> that is not empty, the URL built for \<open>v\<close>
  followed by \<open>s\<close> is the URL built for \<open>s\<close>.
\<close>

theorem release_url_v_prefix:
  "s \<noteq> [] \<longrightarrow> release_url repo (Some (''v'' @ s)) = release_url repo (Some s)"
  by (simp add: release_url_def lstrip_def)

theorem release_url_v_prefix_witness:
  "''20.1.8'' \<noteq> [] \<and>
   release_url default_repo (Some ''v20.1.8'') = release_url default_repo (Some ''20.1.8'') \<and>
   release_url default_repo (Some ''20.1.8'') =
     ''https://api.github.com/repos/cpp-linter/clang-tools-wheel/releases/tags/v20.1.8''"
proof -
  have "release_url default_repo (Some ''20.1.8'') =
     ''https://api.github.com/repos/cpp-linter/clang-tools-wheel/releases/tags/v20.1.8''"
    by (simp add: release_url_def default_repo_def lstrip_def)
  then show ?thesis
    using release_url_v_prefix [where s = "''20.1.8''" and repo = default_repo] by simp
qed


section \<open>Properties of the asset matcher\<close>

lemma scan_assets_find: "scan_assets ph pu t as = List.find (asset_matches ph pu t) as"
  by (induction as) simp_all

lemma find_first_index:
  assumes "j < length xs" and "P (xs ! j)"
  shows "\<exists>k\<le>j. List.find P xs = Some (xs ! k) \<and> P (xs ! k) \<and> (\<forall>m<k. \<not> P (xs ! m))"
proof -
  from assms have "List.find P xs \<noteq> None"
    by (auto simp add: find_None_iff intro: nth_mem)
  then obtain x where x: "List.find P xs = Some x" by blast
  then obtain k where k: "k < length xs" "P (xs ! k)" "x = xs ! k" "\<forall>m<k. \<not> P (xs ! m)"
    unfolding find_Some_iff by blast
  have "k \<le> j"
  proof (rule ccontr)
    assume "\<not> k \<le> j"
    then have "j < k" by simp
    with k(4) assms(2) show False by blast
  qed
  with x k show ?thesis by blast
qed

text \<open>
  C1: for the tag list \<open>[T1, T2]\<close> and an asset list in which an asset matching \<open>T2\<close>
  (at index \<open>i\<close>) stands before an asset matching \<open>T1\<close> (at index \<open>j\<close>), the matcher
  returns an asset matching \<open>T1\<close>, and of these the first in list order: tag order goes
  before list order, and within one tag the first listed match wins.
\<close>

theorem tag_order_beats_list_order:
  assumes "wheel_patterns tool version = (ph, pu)"
    and "i < j" and "j < length as"
    and "asset_matches ph pu T2 (as ! i)"
    and "asset_matches ph pu T1 (as ! j)"
  shows "\<exists>k\<le>j. find_wheel_asset as tool [T1, T2] version = Some (as ! k)
           \<and> asset_matches ph pu T1 (as ! k)
           \<and> (\<forall>m<k. \<not> asset_matches ph pu T1 (as ! m))"
proof -
  obtain k where k: "k \<le> j" "List.find (asset_matches ph pu T1) as = Some (as ! k)"
      "asset_matches ph pu T1 (as ! k)" "\<forall>m<k. \<not> asset_matches ph pu T1 (as ! m)"
    using find_first_index [OF assms(3), of "asset_matches ph pu T1"] assms(5) by blast
  have "find_wheel_asset as tool [T1, T2] version = Some (as ! k)"
    using assms(1) k(2) by (simp add: find_wheel_asset_def scan_assets_find)
  with k show ?thesis by blast
qed

lemma wheel_patterns_format:
  "wheel_patterns ''clang-format'' (Some ''20.1.8'') =
     (''clang-format-20.1.8-py2.py3-none-'', ''clang_format-20.1.8-py2.py3-none-'')"
  by (simp add: wheel_patterns_def str_replace_def)

lemma format_assets_match:
  "asset_matches ''clang-format-20.1.8-py2.py3-none-'' ''clang_format-20.1.8-py2.py3-none-''
     ''manylinux_2_27_x86_64.manylinux_2_28_x86_64'' (format_assets ! 0)"
  "asset_matches ''clang-format-20.1.8-py2.py3-none-'' ''clang_format-20.1.8-py2.py3-none-''
     ''manylinux_2_17_x86_64.manylinux2014_x86_64'' (format_assets ! 1)"
  "\<not> asset_matches ''clang-format-20.1.8-py2.py3-none-'' ''clang_format-20.1.8-py2.py3-none-''
     ''manylinux_2_17_x86_64.manylinux2014_x86_64'' (format_assets ! 0)"
  by (simp_all add: asset_matches_def format_assets_def wheel_def suffix_to_prefix sublist_code)

text \<open>
  The theorem at the two wheels of the specification, with the tag order reversed: the
  second wheel of the list, the one for the first tag, is returned.
\<close>

theorem tag_order_beats_list_order_witness:
  "find_wheel_asset format_assets ''clang-format''
     [''manylinux_2_17_x86_64.manylinux2014_x86_64'',
      ''manylinux_2_27_x86_64.manylinux_2_28_x86_64''] (Some ''20.1.8'')
   = Some (format_assets ! 1)"
proof -
  have len: "(1::nat) < length format_assets" by (simp add: format_assets_def)
  obtain k where k: "k \<le> 1"
    "find_wheel_asset format_assets ''clang-format''
       [''manylinux_2_17_x86_64.manylinux2014_x86_64'',
        ''manylinux_2_27_x86_64.manylinux_2_28_x86_64''] (Some ''20.1.8'')
     = Some (format_assets ! k)"
    "asset_matches ''clang-format-20.1.8-py2.py3-none-'' ''clang_format-20.1.8-py2.py3-none-''
       ''manylinux_2_17_x86_64.manylinux2014_x86_64'' (format_assets ! k)"
    using tag_order_beats_list_order
      [OF wheel_patterns_format zero_less_one len format_assets_match(1) format_assets_match(2)]
    by blast
  have "k \<noteq> 0"
  proof
    assume "k = 0"
    with k(3) format_assets_match(3) show False by simp
  qed
  with k(1) have "k = 1" by simp
  with k(2) show ?thesis by simp
qed

lemma replace_hyphen:
  "replace_nonempty ''-'' ''_'' s = map (\<lambda>c. if c = CHR ''-'' then CHR ''_'' else c) s"
proof (induction s)
  case Nil
  show ?case by simp
next
  case (Cons c s)
  then show ?case by (cases "c = CHR ''-''") simp_all
qed

lemma wheel_patterns_spec:
  "wheel_patterns tool version = (hyphenated_prefix tool version, underscored_prefix tool version)"
  by (cases version)
     (simp_all add: wheel_patterns_def hyphenated_prefix_def underscored_prefix_def
        version_segment_def str_replace_def replace_hyphen)

lemma asset_matches_spec:
  "asset_matches (hyphenated_prefix tool version) (underscored_prefix tool version) t a
     = spec_accepts tool version t (name a)"
  by (auto simp add: asset_matches_def spec_accepts_def form_accepts_def)

lemma scan_assets_Some:
  "scan_assets ph pu t as = Some a \<Longrightarrow> a \<in> set as \<and> asset_matches ph pu t a"
  by (induction as) (auto split: if_splits)

lemma scan_assets_None:
  "(scan_assets ph pu t as = None) = (\<forall>a\<in>set as. \<not> asset_matches ph pu t a)"
  by (induction as) auto

lemma scan_tags_Some:
  "scan_tags ph pu as ts = Some a \<Longrightarrow> a \<in> set as \<and> (\<exists>t\<in>set ts. asset_matches ph pu t a)"
proof (induction ts)
  case Nil
  then show ?case by simp
next
  case (Cons t ts)
  show ?case
  proof (cases "scan_assets ph pu t as")
    case None
    with Cons show ?thesis by auto
  next
    case (Some b)
    with Cons.prems have "b = a" by simp
    with Some scan_assets_Some [of ph pu t as a] show ?thesis by auto
  qed
qed

lemma scan_tags_None:
  "(scan_tags ph pu as ts = None) = (\<forall>t\<in>set ts. \<forall>a\<in>set as. \<not> asset_matches ph pu t a)"
  by (induction ts) (auto simp add: scan_assets_None dest: scan_assets_Some split: option.splits)

lemma suffix_short:
  assumes "length s \<le> length ys"
  shows "suffix s (xs @ ys) = suffix s ys"
proof
  assume "suffix s (xs @ ys)"
  then consider "suffix s ys" | zs where "s = zs @ ys" "suffix zs xs"
    by (auto simp add: suffix_append)
  then show "suffix s ys"
  proof cases
    case 1
    then show ?thesis .
  next
    case 2
    with assms have "zs = []" by simp
    with 2 show ?thesis by simp
  qed
next
  assume "suffix s ys"
  then show "suffix s (xs @ ys)" by (simp add: suffix_appendI)
qed

lemma whl_suffix_after_prefix:
  "suffix ''.whl'' ((p @ ''py2.py3-none-'') @ rest) = suffix ''.whl'' (''py2.py3-none-'' @ rest)"
proof -
  have "suffix ''.whl'' (p @ (''py2.py3-none-'' @ rest)) = suffix ''.whl'' (''py2.py3-none-'' @ rest)"
    by (rule suffix_short) simp
  then show ?thesis by simp
qed

lemma both_forms_alike:
  assumes "sublist t rest"
  shows "spec_accepts tool version t (hyphenated_prefix tool version @ rest)
         = spec_accepts tool version t (underscored_prefix tool version @ rest)"
proof -
  have h: "hyphenated_prefix tool version = (tool @ ''-'' @ version_segment version) @ ''py2.py3-none-''"
    by (simp add: hyphenated_prefix_def)
  have u: "underscored_prefix tool version =
      (map (\<lambda>c. if c = CHR ''-'' then CHR ''_'' else c) tool @ ''-'' @ version_segment version)
        @ ''py2.py3-none-''"
    by (simp add: underscored_prefix_def)
  have sh: "suffix ''.whl'' (hyphenated_prefix tool version @ rest)
      = suffix ''.whl'' (''py2.py3-none-'' @ rest)"
    unfolding h by (rule whl_suffix_after_prefix)
  have su: "suffix ''.whl'' (underscored_prefix tool version @ rest)
      = suffix ''.whl'' (''py2.py3-none-'' @ rest)"
    unfolding u by (rule whl_suffix_after_prefix)
  have th: "sublist t (hyphenated_prefix tool version @ rest)"
    using assms by (metis sublist_append_leftI sublist_order.order.trans)
  have tu: "sublist t (underscored_prefix tool version @ rest)"
    using assms by (metis sublist_append_leftI sublist_order.order.trans)
  show ?thesis
    by (auto simp add: spec_accepts_def form_accepts_def sh su th tu)
qed

text \<open>
  C5: the matcher accepts an asset exactly when its name satisfies the rule of the
  specification (\<open>spec_accepts\<close>): it ends with \<open>.whl\<close>, contains the platform tag, and
  starts with the hyphenated or the underscored prefix, each made of the tool name, a
  hyphen, the version and a hyphen when a version is given, and \<open>py2.py3-none-\<close>. This
  is stated for the matcher run on one asset and one tag, and for any asset list and tag
  list: what is returned is an asset of the list that satisfies the rule for one of the
  tags, and nothing is returned exactly when no asset satisfies it for any tag. The two
  prefixes stand under the same tests (\<open>form_accepts\<close>); in particular two names that
  differ only in the prefix, with the tag in the common rest, are accepted alike.
\<close>

theorem matcher_acceptance:
  "(find_wheel_asset [a] tool [t] version = Some a) = spec_accepts tool version t (name a) \<and>
   (find_wheel_asset as tool ts version = Some b \<longrightarrow>
      b \<in> set as \<and> (\<exists>t'\<in>set ts. spec_accepts tool version t' (name b))) \<and>
   ((find_wheel_asset as tool ts version = None) =
      (\<forall>t'\<in>set ts. \<forall>b'\<in>set as. \<not> spec_accepts tool version t' (name b'))) \<and>
   (sublist t rest \<longrightarrow>
      spec_accepts tool version t (hyphenated_prefix tool version @ rest)
      = spec_accepts tool version t (underscored_prefix tool version @ rest))"
proof (intro conjI impI)
  show "(find_wheel_asset [a] tool [t] version = Some a) = spec_accepts tool version t (name a)"
    by (simp add: find_wheel_asset_def wheel_patterns_spec asset_matches_spec)
next
  assume "find_wheel_asset as tool ts version = Some b"
  then have "scan_tags (hyphenated_prefix tool version) (underscored_prefix tool version) as ts = Some b"
    by (simp add: find_wheel_asset_def wheel_patterns_spec)
  from scan_tags_Some [OF this]
  show "b \<in> set as" and "\<exists>t'\<in>set ts. spec_accepts tool version t' (name b)"
    by (simp_all add: asset_matches_spec)
next
  show "(find_wheel_asset as tool ts version = None) =
      (\<forall>t'\<in>set ts. \<forall>b'\<in>set as. \<not> spec_accepts tool version t' (name b'))"
    by (simp add: find_wheel_asset_def wheel_patterns_spec scan_tags_None asset_matches_spec)
next
  assume "sublist t rest"
  then show "spec_accepts tool version t (hyphenated_prefix tool version @ rest)
      = spec_accepts tool version t (underscored_prefix tool version @ rest)"
    by (rule both_forms_alike)
qed

lemma spec_accepts_underscored:
  "spec_accepts ''clang-format'' (Some ''20.1.8'') ''win_amd64''
     ''clang_format-20.1.8-py2.py3-none-win_amd64.whl''"
  by (simp add: spec_accepts_def form_accepts_def hyphenated_prefix_def underscored_prefix_def
        version_segment_def suffix_to_prefix sublist_code)

lemma spec_accepts_hyphenated:
  "spec_accepts ''clang-format'' (Some ''20.1.8'') ''win_amd64''
     ''clang-format-20.1.8-py2.py3-none-win_amd64.whl''"
  by (simp add: spec_accepts_def form_accepts_def hyphenated_prefix_def underscored_prefix_def
        version_segment_def suffix_to_prefix sublist_code)

lemma prefixes_format:
  "hyphenated_prefix ''clang-format'' (Some ''20.1.8'') = ''clang-format-20.1.8-py2.py3-none-''"
  "underscored_prefix ''clang-format'' (Some ''20.1.8'') = ''clang_format-20.1.8-py2.py3-none-''"
  by (simp_all add: hyphenated_prefix_def underscored_prefix_def version_segment_def)

text \<open>
  The theorem at the Windows wheel of \<open>clang-format\<close> 20.1.8 under both spellings: each
  is returned for the tag \<open>win_amd64\<close>, and none for \<open>win_arm64\<close>.
\<close>

theorem matcher_acceptance_witness:
  "find_wheel_asset [wheel ''clang_format-20.1.8-py2.py3-none-win_amd64.whl''] ''clang-format''
     [''win_amd64''] (Some ''20.1.8'')
     = Some (wheel ''clang_format-20.1.8-py2.py3-none-win_amd64.whl'') \<and>
   find_wheel_asset [wheel ''clang-format-20.1.8-py2.py3-none-win_amd64.whl''] ''clang-format''
     [''win_amd64''] (Some ''20.1.8'')
     = Some (wheel ''clang-format-20.1.8-py2.py3-none-win_amd64.whl'') \<and>
   find_wheel_asset [wheel ''clang-format-20.1.8-py2.py3-none-win_amd64.whl''] ''clang-format''
     [''win_arm64''] (Some ''20.1.8'') = None \<and>
   sublist ''win_amd64'' ''win_amd64.whl'' \<and>
   spec_accepts ''clang-format'' (Some ''20.1.8'') ''win_amd64''
     (''clang-format-20.1.8-py2.py3-none-'' @ ''win_amd64.whl'')
   = spec_accepts ''clang-format'' (Some ''20.1.8'') ''win_amd64''
     (''clang_format-20.1.8-py2.py3-none-'' @ ''win_amd64.whl'')"
proof -
  let ?u = "wheel ''clang_format-20.1.8-py2.py3-none-win_amd64.whl''"
  let ?h = "wheel ''clang-format-20.1.8-py2.py3-none-win_amd64.whl''"
  have sub: "sublist ''win_amd64'' ''win_amd64.whl''" by (simp add: sublist_code)
  have no: "\<not> spec_accepts ''clang-format'' (Some ''20.1.8'') ''win_arm64''
     ''clang-format-20.1.8-py2.py3-none-win_amd64.whl''"
    by (simp add: spec_accepts_def form_accepts_def sublist_code)
  note u = matcher_acceptance [where a = ?u and tool = "''clang-format''" and t = "''win_amd64''"
      and version = "Some ''20.1.8''" and as = "[?u]" and ts = "[''win_amd64'']" and b = ?u
      and rest = "''win_amd64.whl''"]
  note h = matcher_acceptance [where a = ?h and tool = "''clang-format''" and t = "''win_amd64''"
      and version = "Some ''20.1.8''" and as = "[?h]" and ts = "[''win_arm64'']" and b = ?h
      and rest = "''win_amd64.whl''"]
  have 1: "find_wheel_asset [?u] ''clang-format'' [''win_amd64''] (Some ''20.1.8'') = Some ?u"
    using u spec_accepts_underscored by (simp add: wheel_def)
  have 2: "find_wheel_asset [?h] ''clang-format'' [''win_amd64''] (Some ''20.1.8'') = Some ?h"
    using h spec_accepts_hyphenated by (simp add: wheel_def)
  have 3: "find_wheel_asset [?h] ''clang-format'' [''win_arm64''] (Some ''20.1.8'') = None"
    using h no by (simp add: wheel_def)
  have 4: "spec_accepts ''clang-format'' (Some ''20.1.8'') ''win_amd64''
     (''clang-format-20.1.8-py2.py3-none-'' @ ''win_amd64.whl'')
   = spec_accepts ''clang-format'' (Some ''20.1.8'') ''win_amd64''
     (''clang_format-20.1.8-py2.py3-none-'' @ ''win_amd64.whl'')"
    using u sub by (simp only: prefixes_format simp_thms)
  from 1 2 3 sub 4 show ?thesis by (intro conjI)
qed


section \<open>Properties of the downloader\<close>

text \<open>
  C8, as it is stated, fails when the transfer is interrupted: \<open>KeyboardInterrupt\<close> is
  not of class \<open>Exception\<close>, the handler \<open>except Exception\<close> does not catch it, nothing
  more is printed, no boolean is returned, and the exception leaves \<open>download_file\<close>.
\<close>

theorem download_file_propagates_counterexample:
  "download_file ''https://example.org/a.whl'' ''a.whl''
     (\<lambda>u f. RaisesBaseException ''KeyboardInterrupt'') =
     (Inl (Uncaught ''KeyboardInterrupt''), [''Downloading a.whl...''])"
  by (simp add: download_file_def)

text \<open>
  C8, amended: when the transfer raises an exception of class \<open>Exception\<close>, it is
  caught, the failure message is printed and \<open>download_file\<close> returns \<open>False\<close>; when the
  transfer completes, the confirmation is printed and it returns \<open>True\<close>; an exception
  outside class \<open>Exception\<close> is not caught and leaves the function. So a boolean is
  returned exactly when the transfer raises no exception outside class \<open>Exception\<close>,
  and it is \<open>True\<close> exactly when the transfer completed.
\<close>

theorem download_file_catches_exceptions:
  "(urlretrieve url filename = RaisesException e \<longrightarrow>
      download_file url filename urlretrieve =
        (Inr False, [''Downloading '' @ filename @ ''...'',
                     ''Failed to download '' @ filename @ '': '' @ e])) \<and>
   (urlretrieve url filename = Completes \<longrightarrow>
      download_file url filename urlretrieve =
        (Inr True, [''Downloading '' @ filename @ ''...'',
                    ''Successfully downloaded '' @ filename])) \<and>
   (urlretrieve url filename = RaisesBaseException e \<longrightarrow>
      download_file url filename urlretrieve =
        (Inl (Uncaught e), [''Downloading '' @ filename @ ''...''])) \<and>
   ((\<exists>b. fst (download_file url filename urlretrieve) = Inr b) =
      (\<forall>x. urlretrieve url filename \<noteq> RaisesBaseException x)) \<and>
   ((fst (download_file url filename urlretrieve) = Inr True) =
      (urlretrieve url filename = Completes))"
  by (cases "urlretrieve url filename") (auto simp add: download_file_def)

theorem download_file_catches_exceptions_witness:
  "download_file ''https://example.org/a.whl'' ''a.whl'' (\<lambda>u f. RaisesException ''timed out'') =
     (Inr False, [''Downloading a.whl...'', ''Failed to download a.whl: timed out'']) \<and>
   download_file ''https://example.org/a.whl'' ''a.whl'' (\<lambda>u f. Completes) =
     (Inr True, [''Downloading a.whl...'', ''Successfully downloaded a.whl'']) \<and>
   download_file ''https://example.org/a.whl'' ''a.whl'' (\<lambda>u f. RaisesBaseException ''SystemExit'') =
     (Inl (Uncaught ''SystemExit''), [''Downloading a.whl...''])"
  using download_file_catches_exceptions
          [where urlretrieve = "\<lambda>u f. RaisesException ''timed out''"
             and url = "''https://example.org/a.whl''" and filename = "''a.whl''"
             and e = "''timed out''"]
        download_file_catches_exceptions
          [where urlretrieve = "\<lambda>u f. Completes" and url = "''https://example.org/a.whl''"
             and filename = "''a.whl''"]
        download_file_catches_exceptions
          [where urlretrieve = "\<lambda>u f. RaisesBaseException ''SystemExit''"
             and url = "''https://example.org/a.whl''" and filename = "''a.whl''"
             and e = "''SystemExit''"]
  by simp


section \<open>Properties of the platform listing\<close>

lemma tool_assets_tidy:
  "tool_assets ''clang-tidy'' (assets tidy_release) = assets tidy_release"
  "tool_assets ''clang-tidy'' (assets tidy_release_underscored) = assets tidy_release_underscored"
  by (simp_all add: tool_assets_def tidy_release_def tidy_release_underscored_def wheel_def
        str_replace_def suffix_to_prefix)

lemma collect_tidy:
  "collect_platforms (assets tidy_release) {} =
     set [''none-win_amd64'', ''none-manylinux_2_17_x86_64.manylinux2014_x86_64'']"
  by (simp add: tidy_release_def wheel_def str_replace_def Let_def)

lemma collect_tidy_underscored:
  "collect_platforms (assets tidy_release_underscored) {} =
     set [''win_amd64'', ''manylinux_2_17_x86_64.manylinux2014_x86_64'']"
  by (simp add: tidy_release_underscored_def wheel_def str_replace_def Let_def)

text \<open>
  C2: on the release with the two hyphenated \<open>clang-tidy\<close> wheels the listing prints,
  after the heading, \<open>none-manylinux_2_17_x86_64.manylinux2014_x86_64\<close> and
  \<open>none-win_amd64\<close>. The hyphen of the tool name makes one token more, so the tokens
  from index 4 on begin with \<open>none\<close>, which belongs to the marker and not to the
  platform.
\<close>

theorem list_platforms_hyphenated:
  "list_platforms ''clang-tidy'' tidy_release =
     [''Available platforms for clang-tidy in release v1.0:'',
      ''  none-manylinux_2_17_x86_64.manylinux2014_x86_64'',
      ''  none-win_amd64'']"
  unfolding list_platforms_def tool_assets_tidy collect_tidy sorted_list_of_set_sort_remdups
  by (simp add: tidy_release_def)

text \<open>
  With the underscored spelling of the same names the listing prints the two platform
  parts, sorted.
\<close>

lemma list_platforms_underscored:
  "list_platforms ''clang-tidy'' tidy_release_underscored =
     [''Available platforms for clang-tidy in release v1.0:'',
      ''  manylinux_2_17_x86_64.manylinux2014_x86_64'',
      ''  win_amd64'']"
  unfolding list_platforms_def tool_assets_tidy collect_tidy_underscored
    sorted_list_of_set_sort_remdups
  by (simp add: tidy_release_underscored_def)

end
